theory Spec2Isabelle
  imports Main
begin

section \<open>Python values, errors and the data read from the provider\<close>

text \<open>
  The wrapper in \<^verbatim>\<open>modelCall.py\<close> moves dynamically typed values around: what the
  TOML file holds, what the caller passes through \<^verbatim>\<open>**kwargs\<close>, and what ends up in the
  request dictionary. They are modelled by one datatype of Python values; a \<^verbatim>\<open>dict\<close> inside
  a value is an association list read with \<open>map_of\<close>.
\<close>

datatype pyval =
    PNone
  | PBool bool
  | PInt int
  | PStr string
  | PList "pyval list"
  | PDict "(string \<times> pyval) list"

text \<open>Python truthiness, as \<^verbatim>\<open>model or cfg["model"]\<close> tests it.\<close>

fun truthy :: "pyval \<Rightarrow> bool" where
  "truthy PNone = False"
| "truthy (PBool b) = b"
| "truthy (PInt i) = (i \<noteq> 0)"
| "truthy (PStr s) = (s \<noteq> [])"
| "truthy (PList vs) = (vs \<noteq> [])"
| "truthy (PDict kvs) = (kvs \<noteq> [])"

text \<open>
  Every exception the wrapper can let escape. \<open>LoadError\<close> stands for whatever
  \<^verbatim>\<open>toml.load\<close> raises (missing file, syntax error) and \<open>RemoteError\<close> for whatever the
  client library raises from \<^verbatim>\<open>create\<close>; both come from outside the file. \<open>ValueError\<close>
  is the only exception the file raises itself (its message is not modelled).
\<close>

datatype py_error =
    LoadError
  | KeyError string
  | TypeError
  | IndexError
  | AttributeError
  | ValueError
  | RemoteError

text \<open>An attribute that an object may lack altogether (\<^verbatim>\<open>hasattr\<close>, \<^verbatim>\<open>getattr\<close>).\<close>

datatype 'a attr = NoAttr | Attr 'a

text \<open>
  A streamed chunk: \<^verbatim>\<open>chunk.choices[0].delta\<close> may be \<^verbatim>\<open>None\<close>, its \<^verbatim>\<open>content\<close> is an
  optional string, and \<^verbatim>\<open>reasoning_content\<close> is an extra attribute that exists only when
  the provider sent it.
\<close>

record delta =
  delta_content :: "string option"
  delta_reasoning :: "string option attr"

record stream_choice =
  choice_delta :: "delta option"

record chunk =
  chunk_choices :: "stream_choice list"

text \<open>A complete (non-streamed) response: \<^verbatim>\<open>response.choices[0].message\<close>.\<close>

record message =
  msg_content :: "string option"
  msg_reasoning :: "string option attr"

record choice =
  choice_message :: message

record completion =
  choices :: "choice list"

datatype response = Completion completion | Stream "chunk list"

section \<open>Configuration\<close>

record config =
  cfg_api_key :: pyval
  cfg_base_url :: pyval
  cfg_model :: pyval

text \<open>\<^verbatim>\<open>d.get(k)\<close> on a dictionary: the value, or \<^verbatim>\<open>None\<close>.\<close>

definition dict_get :: "(string \<times> pyval) list \<Rightarrow> string \<Rightarrow> pyval" where
  "dict_get kvs k = (case map_of kvs k of None \<Rightarrow> PNone | Some v \<Rightarrow> v)"

text \<open>
  \<^verbatim>\<open>load_config(path, service)\<close>. The first argument is the file system as \<^verbatim>\<open>toml.load\<close>
  sees it: the parsed document at a path, or nothing when loading raises.
  \<^verbatim>\<open>cfg[service]\<close> and \<^verbatim>\<open>service_cfg["api_key"]\<close> raise \<^verbatim>\<open>KeyError\<close> on a missing key;
  subscripting a section that is not a table with a string raises \<^verbatim>\<open>TypeError\<close>.
\<close>

definition load_config ::
  "(string \<Rightarrow> (string \<times> pyval) list option) \<Rightarrow> string \<Rightarrow> string \<Rightarrow> py_error + config" where
  "load_config toml_load path service =
     (case toml_load path of
        None \<Rightarrow> Inl LoadError
      | Some cfg \<Rightarrow>
          (case map_of cfg service of
             None \<Rightarrow> Inl (KeyError service)
           | Some service_cfg \<Rightarrow>
               (case service_cfg of
                  PDict kvs \<Rightarrow>
                    (case map_of kvs ''api_key'' of
                       None \<Rightarrow> Inl (KeyError ''api_key'')
                     | Some k \<Rightarrow>
                         Inr \<lparr>cfg_api_key = k,
                              cfg_base_url = dict_get kvs ''base_url'',
                              cfg_model = dict_get kvs ''model''\<rparr>)
                | _ \<Rightarrow> Inl TypeError)))"

section \<open>Clients, the environment and observable effects\<close>

record client =
  client_api_key :: pyval
  client_base_url :: pyval

definition create_openai_client :: "pyval \<Rightarrow> pyval \<Rightarrow> client" where
  "create_openai_client api_key base_url =
     \<lparr>client_api_key = api_key, client_base_url = base_url\<rparr>"

definition create_deepseek_client :: "pyval \<Rightarrow> pyval \<Rightarrow> client" where
  "create_deepseek_client api_key base_url =
     \<lparr>client_api_key = api_key, client_base_url = base_url\<rparr>"

text \<open>
  The world outside the file: the TOML loader and the remote endpoint behind
  \<^verbatim>\<open>client.chat.completions.create(**api_params)\<close>, which answers a request dictionary
  with a response or raises. A streamed response is the finite sequence of chunks its
  iterator yields.
\<close>

record env =
  toml_load :: "string \<Rightarrow> (string \<times> pyval) list option"
  completions_create :: "client \<Rightarrow> (string \<rightharpoonup> pyval) \<Rightarrow> response option"

text \<open>
  What a call does besides returning, in order: each call of \<^verbatim>\<open>create\<close> with the client
  and the request dictionary, and each \<^verbatim>\<open>print\<close>. \<open>Print s\<close> is the text one call writes
  (\<^verbatim>\<open>print()\<close> writes a line feed); \<open>PrintChunk c\<close> is \<^verbatim>\<open>print(chunk)\<close>.
\<close>

datatype event =
    Request client "string \<rightharpoonup> pyval"
  | Print string
  | PrintChunk chunk

datatype result =
    Raw response
  | Chunks "chunk list"
  | Text "string option"
  | Both "string option" "string option"

definition newline :: string where
  "newline = [CHR 0x0A]"

text \<open>The marker \<^verbatim>\<open>"[...] "\<close> of the f-string at line 185, as its UTF-8 bytes.\<close>

definition reasoning_marker :: string where
  "reasoning_marker =
     [CHR 0x5B, CHR 0xE6, CHR 0x8E, CHR 0xA8, CHR 0xE7, CHR 0x90, CHR 0x86, CHR 0x5D, CHR 0x20]"

fun console :: "event list \<Rightarrow> event list" where
  "console [] = []"
| "console (Request c p # es) = console es"
| "console (e # es) = e # console es"

fun requests :: "event list \<Rightarrow> (client \<times> (string \<rightharpoonup> pyval)) list" where
  "requests [] = []"
| "requests (Request c p # es) = (c, p) # requests es"
| "requests (e # es) = requests es"

section \<open>Reading chunks and responses\<close>

text \<open>\<^verbatim>\<open>chunk.choices[0].delta\<close>: \<^verbatim>\<open>IndexError\<close> on an empty list of choices.\<close>

definition first_delta :: "chunk \<Rightarrow> py_error + delta option" where
  "first_delta chunk =
     (case chunk_choices chunk of [] \<Rightarrow> Inl IndexError | c # _ \<Rightarrow> Inr (choice_delta c))"

text \<open>\<^verbatim>\<open>chunk.choices[0].delta.content\<close>: \<^verbatim>\<open>AttributeError\<close> when the delta is \<^verbatim>\<open>None\<close>.\<close>

definition first_content :: "chunk \<Rightarrow> py_error + string option" where
  "first_content chunk =
     (case first_delta chunk of
        Inl e \<Rightarrow> Inl e
      | Inr None \<Rightarrow> Inl AttributeError
      | Inr (Some d) \<Rightarrow> Inr (delta_content d))"

text \<open>\<^verbatim>\<open>response.choices[0].message\<close> of a complete response.\<close>

definition first_message :: "response \<Rightarrow> py_error + message" where
  "first_message response =
     (case response of
        Stream _ \<Rightarrow> Inl AttributeError
      | Completion r \<Rightarrow>
          (case choices r of [] \<Rightarrow> Inl IndexError | c # _ \<Rightarrow> Inr (choice_message c)))"

section \<open>chat_openai\<close>

text \<open>
  The arguments of a call, after Python has bound them: an argument the caller omits has
  its default (\<^verbatim>\<open>content=""\<close>, a fixed system prompt, \<^verbatim>\<open>return_type="text"\<close>,
  \<^verbatim>\<open>stream=False\<close>), and \<open>kwargs\<close> holds the keyword arguments that name no parameter.
\<close>

record chat_args =
  content :: string
  system :: string
  return_type :: string
  stream :: bool
  kwargs :: "string \<rightharpoonup> pyval"

text \<open>The two synthesized messages of lines 72-75 and 153-156.\<close>

definition synthesized_messages :: "string \<Rightarrow> string \<Rightarrow> pyval" where
  "synthesized_messages sys cont =
     PList [PDict [(''role'', PStr ''system''), (''content'', PStr sys)],
            PDict [(''role'', PStr ''user''), (''content'', PStr cont)]]"

text \<open>Lines 78-83: the dictionary literal; \<^verbatim>\<open>**kwargs\<close> comes last and wins.\<close>

definition openai_api_params :: "config \<Rightarrow> 'a chat_args_scheme \<Rightarrow> (string \<rightharpoonup> pyval)" where
  "openai_api_params cfg a =
     [''model'' \<mapsto> cfg_model cfg,
      ''messages'' \<mapsto> synthesized_messages (system a) (content a),
      ''stream'' \<mapsto> PBool (stream a)] ++ kwargs a"

text \<open>Lines 90-95: the loop of the streaming \<^verbatim>\<open>"json"\<close> branch.\<close>

fun openai_stream_json :: "chunk list \<Rightarrow> chunk list \<Rightarrow> (py_error + chunk list) \<times> event list" where
  "openai_stream_json [] chunk_list = (Inr chunk_list, [])"
| "openai_stream_json (chunk # rest) chunk_list =
     (case first_content chunk of
        Inl e \<Rightarrow> (Inl e, [])
      | Inr None \<Rightarrow> openai_stream_json rest chunk_list
      | Inr (Some _) \<Rightarrow>
          (case openai_stream_json rest (chunk_list @ [chunk]) of
             (r, out) \<Rightarrow> (r, PrintChunk chunk # out)))"

text \<open>Lines 97-102: the loop of the streaming \<^verbatim>\<open>"text"\<close> branch.\<close>

fun openai_stream_text :: "chunk list \<Rightarrow> string \<Rightarrow> (py_error + string) \<times> event list" where
  "openai_stream_text [] full_content = (Inr full_content, [])"
| "openai_stream_text (chunk # rest) full_content =
     (case first_content chunk of
        Inl e \<Rightarrow> (Inl e, [])
      | Inr None \<Rightarrow> openai_stream_text rest full_content
      | Inr (Some c) \<Rightarrow>
          (case openai_stream_text rest (full_content @ c) of
             (r, out) \<Rightarrow> (r, Print c # out)))"

text \<open>
  Iterating a response. A response that is not a stream is a pydantic object; its
  iterator yields field tuples, and \<^verbatim>\<open>chunk.choices\<close> fails on the first.
\<close>

definition iterate :: "response \<Rightarrow> py_error + chunk list" where
  "iterate response = (case response of Stream cs \<Rightarrow> Inr cs | Completion _ \<Rightarrow> Inl AttributeError)"

definition chat_openai :: "env \<Rightarrow> chat_args \<Rightarrow> (py_error + result) \<times> event list" where
  "chat_openai w a =
     (case load_config (toml_load w) ''./config.toml'' ''openai'' of
        Inl e \<Rightarrow> (Inl e, [])
      | Inr cfg \<Rightarrow>
          (let client = create_openai_client (cfg_api_key cfg) (cfg_base_url cfg);
               api_params = openai_api_params cfg a
           in if stream a then
                (case completions_create w client api_params of
                   None \<Rightarrow> (Inl RemoteError, [Request client api_params])
                 | Some response \<Rightarrow>
                     if return_type a = ''json'' then
                       (case iterate response of
                          Inl e \<Rightarrow> (Inl e, [Request client api_params])
                        | Inr cs \<Rightarrow>
                            (case openai_stream_json cs [] of
                               (Inl e, out) \<Rightarrow> (Inl e, Request client api_params # out)
                             | (Inr chunk_list, out) \<Rightarrow>
                                 (Inr (Chunks chunk_list), Request client api_params # out)))
                     else if return_type a = ''text'' then
                       (case iterate response of
                          Inl e \<Rightarrow> (Inl e, [Request client api_params])
                        | Inr cs \<Rightarrow>
                            (case openai_stream_text cs [] of
                               (Inl e, out) \<Rightarrow> (Inl e, Request client api_params # out)
                             | (Inr full_content, out) \<Rightarrow>
                                 (Inr (Text (Some full_content)),
                                  Request client api_params # out @ [Print newline])))
                     else (Inl ValueError, [Request client api_params]))
              else
                (case completions_create w client api_params of
                   None \<Rightarrow> (Inl RemoteError, [Request client api_params])
                 | Some response \<Rightarrow>
                     if return_type a = ''json'' then
                       (Inr (Raw response), [Request client api_params])
                     else if return_type a = ''text'' then
                       (case first_message response of
                          Inl e \<Rightarrow> (Inl e, [Request client api_params])
                        | Inr m \<Rightarrow> (Inr (Text (msg_content m)), [Request client api_params]))
                     else (Inl ValueError, [Request client api_params]))))"

section \<open>chat_deepseek\<close>

text \<open>
  The two further parameters of \<^verbatim>\<open>chat_deepseek\<close>, both \<^verbatim>\<open>None\<close> by default.
\<close>

record deepseek_args = chat_args +
  model :: pyval
  messages :: pyval

text \<open>
  Lines 152-164: the messages are synthesized only when \<^verbatim>\<open>messages is None\<close>;
  \<^verbatim>\<open>model or cfg["model"]\<close> takes the configured model whenever \<^verbatim>\<open>model\<close> is falsy.
\<close>

definition deepseek_api_params :: "config \<Rightarrow> deepseek_args \<Rightarrow> (string \<rightharpoonup> pyval)" where
  "deepseek_api_params cfg a =
     [''model'' \<mapsto> (if truthy (model a) then model a else cfg_model cfg),
      ''messages'' \<mapsto>
         (if messages a = PNone then synthesized_messages (system a) (content a)
          else messages a),
      ''stream'' \<mapsto> PBool (stream a)] ++ kwargs a"

text \<open>Lines 171-176: the streaming \<^verbatim>\<open>"json"\<close> loop keeps a chunk when its delta is not \<^verbatim>\<open>None\<close>.\<close>

fun deepseek_stream_json ::
  "chunk list \<Rightarrow> chunk list \<Rightarrow> (py_error + chunk list) \<times> event list" where
  "deepseek_stream_json [] chunk_list = (Inr chunk_list, [])"
| "deepseek_stream_json (chunk # rest) chunk_list =
     (case first_delta chunk of
        Inl e \<Rightarrow> (Inl e, [])
      | Inr None \<Rightarrow> deepseek_stream_json rest chunk_list
      | Inr (Some _) \<Rightarrow>
          (case deepseek_stream_json rest (chunk_list @ [chunk]) of
             (r, out) \<Rightarrow> (r, PrintChunk chunk # out)))"

text \<open>
  Line 183: \<^verbatim>\<open>hasattr(delta, 'reasoning_content') and delta.reasoning_content\<close> holds when
  the attribute exists and is a non-empty string; line 186: \<^verbatim>\<open>delta.content\<close> is truthy
  when it is a non-empty string.
\<close>

definition has_reasoning :: "delta \<Rightarrow> bool" where
  "has_reasoning d = (case delta_reasoning d of Attr (Some r) \<Rightarrow> r \<noteq> [] | _ \<Rightarrow> False)"

definition reasoning_text :: "delta \<Rightarrow> string" where
  "reasoning_text d = (case delta_reasoning d of Attr (Some r) \<Rightarrow> r | _ \<Rightarrow> [])"

definition has_content :: "delta \<Rightarrow> bool" where
  "has_content d = (case delta_content d of Some c \<Rightarrow> c \<noteq> [] | None \<Rightarrow> False)"

definition content_text :: "delta \<Rightarrow> string" where
  "content_text d = (case delta_content d of Some c \<Rightarrow> c | None \<Rightarrow> [])"

text \<open>
  Lines 178-188: the loop of the other streaming modes. On a delta that is \<^verbatim>\<open>None\<close>,
  \<^verbatim>\<open>hasattr\<close> is false and \<^verbatim>\<open>delta.content\<close> raises \<^verbatim>\<open>AttributeError\<close>.
\<close>

fun deepseek_stream_text ::
  "chunk list \<Rightarrow> string \<Rightarrow> string \<Rightarrow> (py_error + string \<times> string) \<times> event list" where
  "deepseek_stream_text [] full_content reasoning_content =
     (Inr (full_content, reasoning_content), [])"
| "deepseek_stream_text (chunk # rest) full_content reasoning_content =
     (case first_delta chunk of
        Inl e \<Rightarrow> (Inl e, [])
      | Inr None \<Rightarrow> (Inl AttributeError, [])
      | Inr (Some d) \<Rightarrow>
          if has_reasoning d then
            (case deepseek_stream_text rest full_content (reasoning_content @ reasoning_text d) of
               (r, out) \<Rightarrow> (r, Print (reasoning_marker @ reasoning_text d) # out))
          else if has_content d then
            (case deepseek_stream_text rest (full_content @ content_text d) reasoning_content of
               (r, out) \<Rightarrow> (r, Print (content_text d) # out))
          else deepseek_stream_text rest full_content reasoning_content)"

text \<open>Line 203: \<^verbatim>\<open>getattr(message, 'reasoning_content', '')\<close>.\<close>

definition getattr_reasoning :: "message \<Rightarrow> string option" where
  "getattr_reasoning m = (case msg_reasoning m of NoAttr \<Rightarrow> Some [] | Attr v \<Rightarrow> v)"

definition chat_deepseek :: "env \<Rightarrow> deepseek_args \<Rightarrow> (py_error + result) \<times> event list" where
  "chat_deepseek w a =
     (case load_config (toml_load w) ''./config.toml'' ''deepseek'' of
        Inl e \<Rightarrow> (Inl e, [])
      | Inr cfg \<Rightarrow>
          (let client = create_deepseek_client (cfg_api_key cfg) (cfg_base_url cfg);
               api_params = deepseek_api_params cfg a
           in if stream a then
                (case completions_create w client api_params of
                   None \<Rightarrow> (Inl RemoteError, [Request client api_params])
                 | Some response \<Rightarrow>
                     if return_type a = ''json'' then
                       (case iterate response of
                          Inl e \<Rightarrow> (Inl e, [Request client api_params])
                        | Inr cs \<Rightarrow>
                            (case deepseek_stream_json cs [] of
                               (Inl e, out) \<Rightarrow> (Inl e, Request client api_params # out)
                             | (Inr chunk_list, out) \<Rightarrow>
                                 (Inr (Chunks chunk_list), Request client api_params # out)))
                     else
                       (case iterate response of
                          Inl e \<Rightarrow> (Inl e, [Request client api_params])
                        | Inr cs \<Rightarrow>
                            (case deepseek_stream_text cs [] [] of
                               (Inl e, out) \<Rightarrow> (Inl e, Request client api_params # out)
                             | (Inr (full_content, reasoning_content), out) \<Rightarrow>
                                 (Inr (if return_type a = ''both''
                                       then Both (Some full_content) (Some reasoning_content)
                                       else Text (Some full_content)),
                                  Request client api_params # out @ [Print newline]))))
              else
                (case completions_create w client api_params of
                   None \<Rightarrow> (Inl RemoteError, [Request client api_params])
                 | Some response \<Rightarrow>
                     if return_type a = ''json'' then
                       (Inr (Raw response), [Request client api_params])
                     else if return_type a = ''both'' then
                       (case first_message response of
                          Inl e \<Rightarrow> (Inl e, [Request client api_params])
                        | Inr m \<Rightarrow>
                            (Inr (Both (msg_content m) (getattr_reasoning m)),
                             [Request client api_params]))
                     else
                       (case first_message response of
                          Inl e \<Rightarrow> (Inl e, [Request client api_params])
                        | Inr m \<Rightarrow> (Inr (Text (msg_content m)), [Request client api_params])))))"

section \<open>Vocabulary of the properties\<close>

text \<open>
  A chunk is well formed when \<^verbatim>\<open>chunk.choices[0].delta\<close> exists and is not \<^verbatim>\<open>None\<close>, so
  that the loops can read its fields; \<open>delta_of\<close> is that delta.
\<close>

definition has_choice :: "chunk \<Rightarrow> bool" where
  "has_choice c = (chunk_choices c \<noteq> [])"

definition empty_delta :: delta where
  "empty_delta = \<lparr>delta_content = None, delta_reasoning = NoAttr\<rparr>"

definition delta_of :: "chunk \<Rightarrow> delta" where
  "delta_of c =
     (case chunk_choices c of
        [] \<Rightarrow> empty_delta
      | ch # _ \<Rightarrow> (case choice_delta ch of None \<Rightarrow> empty_delta | Some d \<Rightarrow> d))"

definition well_formed :: "chunk \<Rightarrow> bool" where
  "well_formed c =
     (case chunk_choices c of [] \<Rightarrow> False | ch # _ \<Rightarrow> choice_delta ch \<noteq> None)"

text \<open>The chunks whose content is present (not \<^verbatim>\<open>None\<close>), and their content fragments.\<close>

definition content_present :: "chunk \<Rightarrow> bool" where
  "content_present c = (delta_content (delta_of c) \<noteq> None)"

definition present_contents :: "chunk list \<Rightarrow> string list" where
  "present_contents cs = map (\<lambda>c. content_text (delta_of c)) (filter content_present cs)"

text \<open>
  A chunk is auxiliary-marked when it carries a non-empty reasoning fragment; the primary
  fragments are the non-empty contents of the chunks that are not.
\<close>

definition auxiliary_marked :: "chunk \<Rightarrow> bool" where
  "auxiliary_marked c = has_reasoning (delta_of c)"

definition primary_chunk :: "chunk \<Rightarrow> bool" where
  "primary_chunk c = (\<not> auxiliary_marked c \<and> has_content (delta_of c))"

definition auxiliary_fragments :: "chunk list \<Rightarrow> string list" where
  "auxiliary_fragments cs = map (\<lambda>c. reasoning_text (delta_of c)) (filter auxiliary_marked cs)"

definition primary_fragments :: "chunk list \<Rightarrow> string list" where
  "primary_fragments cs = map (\<lambda>c. content_text (delta_of c)) (filter primary_chunk cs)"

text \<open>What the dual-channel loop echoes for one chunk.\<close>

definition deepseek_echo :: "chunk \<Rightarrow> event list" where
  "deepseek_echo c =
     (if auxiliary_marked c then [Print (reasoning_marker @ reasoning_text (delta_of c))]
      else if has_content (delta_of c) then [Print (content_text (delta_of c))]
      else [])"

section \<open>A mocked configuration file, remote endpoint and calls\<close>

text \<open>
  The configuration of the specification's example, with a section for each provider,
  and a remote endpoint that answers every request with a fixed response.
\<close>

definition example_doc :: "(string \<times> pyval) list" where
  "example_doc =
     [(''openai'', PDict [(''api_key'', PStr ''k''), (''model'', PStr ''gpt-x'')]),
      (''deepseek'', PDict [(''api_key'', PStr ''d''),
                            (''base_url'', PStr ''https://api.deepseek.com''),
                            (''model'', PStr ''deepseek-chat'')])]"

definition mock_env :: "(string \<times> pyval) list \<Rightarrow> response \<Rightarrow> env" where
  "mock_env doc r =
     \<lparr>toml_load = (\<lambda>path. if path = ''./config.toml'' then Some doc else None),
      completions_create = (\<lambda>c p. Some r)\<rparr>"

definition openai_cfg :: config where
  "openai_cfg = \<lparr>cfg_api_key = PStr ''k'', cfg_base_url = PNone, cfg_model = PStr ''gpt-x''\<rparr>"

definition deepseek_cfg :: config where
  "deepseek_cfg =
     \<lparr>cfg_api_key = PStr ''d'', cfg_base_url = PStr ''https://api.deepseek.com'',
      cfg_model = PStr ''deepseek-chat''\<rparr>"

definition text_chunk :: "string \<Rightarrow> chunk" where
  "text_chunk s =
     \<lparr>chunk_choices = [\<lparr>choice_delta = Some \<lparr>delta_content = Some s, delta_reasoning = NoAttr\<rparr>\<rparr>]\<rparr>"

definition reasoning_chunk :: "string \<Rightarrow> chunk" where
  "reasoning_chunk r =
     \<lparr>chunk_choices =
        [\<lparr>choice_delta = Some \<lparr>delta_content = None, delta_reasoning = Attr (Some r)\<rparr>\<rparr>]\<rparr>"

definition mock_completion :: "string \<Rightarrow> string option attr \<Rightarrow> response" where
  "mock_completion s r =
     Completion \<lparr>choices = [\<lparr>choice_message = \<lparr>msg_content = Some s, msg_reasoning = r\<rparr>\<rparr>]\<rparr>"

definition openai_call :: "string \<Rightarrow> bool \<Rightarrow> (string \<rightharpoonup> pyval) \<Rightarrow> chat_args" where
  "openai_call rt st kw =
     \<lparr>content = ''hi'', system = ''be brief'', return_type = rt, stream = st, kwargs = kw\<rparr>"

definition deepseek_call ::
  "string \<Rightarrow> bool \<Rightarrow> pyval \<Rightarrow> pyval \<Rightarrow> (string \<rightharpoonup> pyval) \<Rightarrow> deepseek_args" where
  "deepseek_call rt st m ms kw =
     \<lparr>content = ''hi'', system = ''be brief'', return_type = rt, stream = st, kwargs = kw,
      model = m, messages = ms\<rparr>"

section \<open>The loops on well-formed streams\<close>

lemma first_delta_wf: "well_formed c \<Longrightarrow> first_delta c = Inr (Some (delta_of c))"
  by (auto simp: well_formed_def first_delta_def delta_of_def split: list.splits)

lemma first_content_wf: "well_formed c \<Longrightarrow> first_content c = Inr (delta_content (delta_of c))"
  by (simp add: first_content_def first_delta_wf)

lemma openai_stream_text_wf:
  "list_all well_formed cs \<Longrightarrow>
   openai_stream_text cs acc =
     (Inr (acc @ concat (present_contents cs)), map Print (present_contents cs))"
proof (induction cs arbitrary: acc)
  case Nil
  then show ?case by (simp add: present_contents_def)
next
  case (Cons c cs)
  then have wf: "well_formed c" and rest: "list_all well_formed cs" by simp_all
  show ?case
  proof (cases "delta_content (delta_of c)")
    case None
    with wf Cons.IH [OF rest] show ?thesis
      by (simp add: first_content_wf present_contents_def content_present_def)
  next
    case (Some t)
    with wf Cons.IH [OF rest] show ?thesis
      by (simp add: first_content_wf present_contents_def content_present_def content_text_def)
  qed
qed

lemma openai_stream_json_wf:
  "list_all well_formed cs \<Longrightarrow>
   openai_stream_json cs acc =
     (Inr (acc @ filter content_present cs), map PrintChunk (filter content_present cs))"
proof (induction cs arbitrary: acc)
  case Nil
  then show ?case by simp
next
  case (Cons c cs)
  then have wf: "well_formed c" and rest: "list_all well_formed cs" by simp_all
  show ?case
  proof (cases "delta_content (delta_of c)")
    case None
    with wf Cons.IH [OF rest] show ?thesis
      by (simp add: first_content_wf content_present_def)
  next
    case (Some t)
    with wf Cons.IH [OF rest] show ?thesis
      by (simp add: first_content_wf content_present_def)
  qed
qed

lemma deepseek_stream_text_wf:
  "list_all well_formed cs \<Longrightarrow>
   deepseek_stream_text cs f r =
     (Inr (f @ concat (primary_fragments cs), r @ concat (auxiliary_fragments cs)),
      concat (map deepseek_echo cs))"
proof (induction cs arbitrary: f r)
  case Nil
  then show ?case by (simp add: primary_fragments_def auxiliary_fragments_def)
next
  case (Cons c cs)
  then have wf: "well_formed c" and rest: "list_all well_formed cs" by simp_all
  from wf Cons.IH [OF rest] show ?case
    by (simp add: first_delta_wf primary_fragments_def auxiliary_fragments_def
        deepseek_echo_def primary_chunk_def auxiliary_marked_def)
qed

lemma deepseek_stream_json_ok:
  "list_all has_choice cs \<Longrightarrow>
   deepseek_stream_json cs acc =
     (Inr (acc @ filter well_formed cs), map PrintChunk (filter well_formed cs))"
proof (induction cs arbitrary: acc)
  case Nil
  then show ?case by simp
next
  case (Cons c cs)
  then have hc: "has_choice c" and rest: "list_all has_choice cs" by simp_all
  from hc obtain ch chs where c: "chunk_choices c = ch # chs"
    by (cases "chunk_choices c") (auto simp: has_choice_def)
  show ?case
  proof (cases "choice_delta ch")
    case None
    with c Cons.IH [OF rest] show ?thesis
      by (simp add: first_delta_def well_formed_def)
  next
    case (Some d)
    with c Cons.IH [OF rest] show ?thesis
      by (simp add: first_delta_def well_formed_def)
  qed
qed

section \<open>Projections of the trace\<close>

lemma console_prints [simp]: "console (map Print xs) = map Print xs"
  by (induction xs) simp_all

lemma console_print_chunks [simp]: "console (map PrintChunk xs) = map PrintChunk xs"
  by (induction xs) simp_all

lemma console_append [simp]: "console (xs @ ys) = console xs @ console ys"
  by (induction xs rule: console.induct) simp_all

lemma console_deepseek_echo [simp]:
  "console (concat (map deepseek_echo cs)) = concat (map deepseek_echo cs)"
  by (induction cs) (simp_all add: deepseek_echo_def)

section \<open>The calls on a loaded configuration\<close>

lemma example_load_openai:
  "load_config (toml_load (mock_env example_doc r)) ''./config.toml'' ''openai'' = Inr openai_cfg"
  by (simp add: load_config_def mock_env_def example_doc_def openai_cfg_def dict_get_def)

lemma example_load_deepseek:
  "load_config (toml_load (mock_env example_doc r)) ''./config.toml'' ''deepseek'' =
     Inr deepseek_cfg"
  by (simp add: load_config_def mock_env_def example_doc_def deepseek_cfg_def dict_get_def)

lemma example_create: "completions_create (mock_env doc r) c p = Some r"
  by (simp add: mock_env_def)

lemma chat_openai_stream_text:
  assumes "load_config (toml_load w) ''./config.toml'' ''openai'' = Inr cfg"
    and "completions_create w (create_openai_client (cfg_api_key cfg) (cfg_base_url cfg))
           (openai_api_params cfg a) = Some (Stream cs)"
    and "list_all well_formed cs" and "stream a" and "return_type a = ''text''"
  shows "chat_openai w a =
           (Inr (Text (Some (concat (present_contents cs)))),
            Request (create_openai_client (cfg_api_key cfg) (cfg_base_url cfg))
              (openai_api_params cfg a) # map Print (present_contents cs) @ [Print newline])"
  using assms by (simp add: chat_openai_def iterate_def openai_stream_text_wf)

lemma chat_deepseek_stream_text:
  assumes "load_config (toml_load w) ''./config.toml'' ''deepseek'' = Inr cfg"
    and "completions_create w (create_deepseek_client (cfg_api_key cfg) (cfg_base_url cfg))
           (deepseek_api_params cfg a) = Some (Stream cs)"
    and "list_all well_formed cs" and "stream a" and "return_type a \<noteq> ''json''"
  shows "chat_deepseek w a =
           (Inr (if return_type a = ''both''
                 then Both (Some (concat (primary_fragments cs)))
                        (Some (concat (auxiliary_fragments cs)))
                 else Text (Some (concat (primary_fragments cs)))),
            Request (create_deepseek_client (cfg_api_key cfg) (cfg_base_url cfg))
              (deepseek_api_params cfg a) # concat (map deepseek_echo cs) @ [Print newline])"
  using assms by (simp add: chat_deepseek_def iterate_def deepseek_stream_text_wf)

lemma requests_append: "requests (xs @ ys) = requests xs @ requests ys"
  by (induction xs rule: requests.induct) simp_all

lemma openai_stream_json_requests: "requests (snd (openai_stream_json cs acc)) = []"
  by (induction cs acc rule: openai_stream_json.induct)
     (auto split: sum.splits option.splits prod.splits)

lemma openai_stream_text_requests: "requests (snd (openai_stream_text cs acc)) = []"
  by (induction cs acc rule: openai_stream_text.induct)
     (auto split: sum.splits option.splits prod.splits)

lemma deepseek_stream_json_requests: "requests (snd (deepseek_stream_json cs acc)) = []"
  by (induction cs acc rule: deepseek_stream_json.induct)
     (auto split: sum.splits option.splits prod.splits)

lemma deepseek_stream_text_requests: "requests (snd (deepseek_stream_text cs f r)) = []"
  by (induction cs f r rule: deepseek_stream_text.induct)
     (auto split: sum.splits option.splits prod.splits)

lemma chat_openai_requests:
  assumes "load_config (toml_load w) ''./config.toml'' ''openai'' = Inr cfg"
  shows "requests (snd (chat_openai w a)) =
           [(create_openai_client (cfg_api_key cfg) (cfg_base_url cfg), openai_api_params cfg a)]"
proof -
  have j: "\<And>cs r out. openai_stream_json cs [] = (r, out) \<Longrightarrow> requests out = []"
    using openai_stream_json_requests by (metis snd_conv)
  have t: "\<And>cs r out. openai_stream_text cs [] = (r, out) \<Longrightarrow> requests out = []"
    using openai_stream_text_requests by (metis snd_conv)
  show ?thesis
    using assms
    by (auto simp: chat_openai_def Let_def requests_append dest: j t
        split: sum.splits option.splits prod.splits)
qed

lemma chat_deepseek_requests:
  assumes "load_config (toml_load w) ''./config.toml'' ''deepseek'' = Inr cfg"
  shows "requests (snd (chat_deepseek w a)) =
           [(create_deepseek_client (cfg_api_key cfg) (cfg_base_url cfg), deepseek_api_params cfg a)]"
proof -
  have j: "\<And>cs r out. deepseek_stream_json cs [] = (r, out) \<Longrightarrow> requests out = []"
    using deepseek_stream_json_requests by (metis snd_conv)
  have t: "\<And>cs r out. deepseek_stream_text cs [] [] = (r, out) \<Longrightarrow> requests out = []"
    using deepseek_stream_text_requests by (metis snd_conv)
  show ?thesis
    using assms
    by (auto simp: chat_deepseek_def Let_def requests_append dest: j t
        split: sum.splits option.splits prod.splits)
qed

lemma load_config_not_ValueError: "load_config ld p s \<noteq> Inl ValueError"
  by (auto simp: load_config_def split: option.splits pyval.splits)

lemma first_delta_not_ValueError: "first_delta c \<noteq> Inl ValueError"
  by (auto simp: first_delta_def split: list.splits)

lemma first_message_not_ValueError: "first_message r \<noteq> Inl ValueError"
  by (auto simp: first_message_def split: response.splits list.splits)

lemma iterate_not_ValueError: "iterate r \<noteq> Inl ValueError"
  by (auto simp: iterate_def split: response.splits)

lemma deepseek_stream_json_not_ValueError: "fst (deepseek_stream_json cs acc) \<noteq> Inl ValueError"
  using first_delta_not_ValueError
  by (induction cs acc rule: deepseek_stream_json.induct)
     (auto split: sum.splits option.splits prod.splits)

lemma deepseek_stream_text_not_ValueError: "fst (deepseek_stream_text cs f r) \<noteq> Inl ValueError"
  using first_delta_not_ValueError
  by (induction cs f r rule: deepseek_stream_text.induct)
     (auto split: sum.splits option.splits prod.splits)

lemma chat_deepseek_not_ValueError: "fst (chat_deepseek w a) \<noteq> Inl ValueError"
proof -
  have j: "\<And>cs out. deepseek_stream_json cs [] = (Inl ValueError, out) \<Longrightarrow> False"
    using deepseek_stream_json_not_ValueError by (metis fst_conv)
  have t: "\<And>cs out. deepseek_stream_text cs [] [] = (Inl ValueError, out) \<Longrightarrow> False"
    using deepseek_stream_text_not_ValueError by (metis fst_conv)
  show ?thesis
    using load_config_not_ValueError first_message_not_ValueError iterate_not_ValueError
    by (auto simp: chat_deepseek_def Let_def dest: j t
        split: sum.splits option.splits prod.splits)
qed

section \<open>Streams with an ill-formed chunk\<close>

text \<open>
  A loop that reads a field of the delta fails at the first chunk without a first choice
  (\<^verbatim>\<open>IndexError\<close>) or with a delta that is \<^verbatim>\<open>None\<close> (\<^verbatim>\<open>AttributeError\<close>); the raw loop of
  \<open>chat_deepseek\<close> fails only at a chunk without a first choice. So a streaming call
  returns a value exactly on the streams the statements below are about.
\<close>

lemma first_delta_ill_formed:
  "\<not> well_formed c \<Longrightarrow> first_delta c = Inl IndexError \<or> first_delta c = Inr None"
  by (auto simp: well_formed_def first_delta_def split: list.splits)

lemma first_content_ill_formed: "\<not> well_formed c \<Longrightarrow> \<exists>e. first_content c = Inl e"
  using first_delta_ill_formed [of c] by (auto simp: first_content_def)

lemma first_delta_no_choice: "\<not> has_choice c \<Longrightarrow> first_delta c = Inl IndexError"
  by (simp add: has_choice_def first_delta_def)

lemma openai_stream_text_fails:
  "\<not> list_all well_formed cs \<Longrightarrow> \<exists>e. fst (openai_stream_text cs acc) = Inl e"
proof (induction cs arbitrary: acc)
  case Nil
  then show ?case by simp
next
  case (Cons c cs)
  show ?case
  proof (cases "well_formed c")
    case True
    with Cons.prems have "\<not> list_all well_formed cs" by simp
    from Cons.IH [OF this] True show ?thesis
      by (simp add: first_content_wf case_prod_beta split: option.splits)
  next
    case False
    from first_content_ill_formed [OF this] show ?thesis by auto
  qed
qed

lemma openai_stream_json_fails:
  "\<not> list_all well_formed cs \<Longrightarrow> \<exists>e. fst (openai_stream_json cs acc) = Inl e"
proof (induction cs arbitrary: acc)
  case Nil
  then show ?case by simp
next
  case (Cons c cs)
  show ?case
  proof (cases "well_formed c")
    case True
    with Cons.prems have "\<not> list_all well_formed cs" by simp
    from Cons.IH [OF this] True show ?thesis
      by (simp add: first_content_wf case_prod_beta split: option.splits)
  next
    case False
    from first_content_ill_formed [OF this] show ?thesis by auto
  qed
qed

lemma deepseek_stream_text_fails:
  "\<not> list_all well_formed cs \<Longrightarrow> \<exists>e. fst (deepseek_stream_text cs f r) = Inl e"
proof (induction cs arbitrary: f r)
  case Nil
  then show ?case by simp
next
  case (Cons c cs)
  show ?case
  proof (cases "well_formed c")
    case True
    with Cons.prems have "\<not> list_all well_formed cs" by simp
    from Cons.IH [OF this] True show ?thesis
      by (simp add: first_delta_wf case_prod_beta)
  next
    case False
    from first_delta_ill_formed [OF this] show ?thesis by auto
  qed
qed

lemma deepseek_stream_json_fails:
  "\<not> list_all has_choice cs \<Longrightarrow> \<exists>e. fst (deepseek_stream_json cs acc) = Inl e"
proof (induction cs arbitrary: acc)
  case Nil
  then show ?case by simp
next
  case (Cons c cs)
  show ?case
  proof (cases "has_choice c")
    case True
    with Cons.prems have "\<not> list_all has_choice cs" by simp
    from Cons.IH [OF this] show ?thesis
      by (simp add: case_prod_beta split: sum.splits option.splits)
  next
    case False
    from first_delta_no_choice [OF this] show ?thesis by simp
  qed
qed

lemma chat_openai_stream_text_fails:
  assumes "load_config (toml_load w) ''./config.toml'' ''openai'' = Inr cfg"
    and "completions_create w (create_openai_client (cfg_api_key cfg) (cfg_base_url cfg))
           (openai_api_params cfg a) = Some (Stream cs)"
    and "\<not> list_all well_formed cs" and "stream a" and "return_type a = ''text''"
  shows "\<exists>e. fst (chat_openai w a) = Inl e"
proof -
  from openai_stream_text_fails [OF assms(3)] obtain e out
    where "openai_stream_text cs [] = (Inl e, out)"
    by (metis prod.collapse)
  with assms show ?thesis
    by (simp add: chat_openai_def Let_def iterate_def)
qed

lemma chat_openai_stream_json_fails:
  assumes "load_config (toml_load w) ''./config.toml'' ''openai'' = Inr cfg"
    and "completions_create w (create_openai_client (cfg_api_key cfg) (cfg_base_url cfg))
           (openai_api_params cfg a) = Some (Stream cs)"
    and "\<not> list_all well_formed cs" and "stream a" and "return_type a = ''json''"
  shows "\<exists>e. fst (chat_openai w a) = Inl e"
proof -
  from openai_stream_json_fails [OF assms(3)] obtain e out
    where "openai_stream_json cs [] = (Inl e, out)"
    by (metis prod.collapse)
  with assms show ?thesis
    by (simp add: chat_openai_def Let_def iterate_def)
qed

lemma chat_deepseek_stream_text_fails:
  assumes "load_config (toml_load w) ''./config.toml'' ''deepseek'' = Inr cfg"
    and "completions_create w (create_deepseek_client (cfg_api_key cfg) (cfg_base_url cfg))
           (deepseek_api_params cfg a) = Some (Stream cs)"
    and "\<not> list_all well_formed cs" and "stream a" and "return_type a \<noteq> ''json''"
  shows "\<exists>e. fst (chat_deepseek w a) = Inl e"
proof -
  from deepseek_stream_text_fails [OF assms(3)] obtain e out
    where "deepseek_stream_text cs [] [] = (Inl e, out)"
    by (metis prod.collapse)
  with assms show ?thesis
    by (simp add: chat_deepseek_def Let_def iterate_def)
qed

lemma chat_deepseek_stream_json_fails:
  assumes "load_config (toml_load w) ''./config.toml'' ''deepseek'' = Inr cfg"
    and "completions_create w (create_deepseek_client (cfg_api_key cfg) (cfg_base_url cfg))
           (deepseek_api_params cfg a) = Some (Stream cs)"
    and "\<not> list_all has_choice cs" and "stream a" and "return_type a = ''json''"
  shows "\<exists>e. fst (chat_deepseek w a) = Inl e"
proof -
  from deepseek_stream_json_fails [OF assms(3)] obtain e out
    where "deepseek_stream_json cs [] = (Inl e, out)"
    by (metis prod.collapse)
  with assms show ?thesis
    by (simp add: chat_deepseek_def Let_def iterate_def)
qed

section \<open>Evaluating the mocked chunks\<close>

lemma wf_text_chunk [simp]: "well_formed (text_chunk s)"
  by (simp add: well_formed_def text_chunk_def)

lemma wf_reasoning_chunk [simp]: "well_formed (reasoning_chunk s)"
  by (simp add: well_formed_def reasoning_chunk_def)

lemma delta_of_text_chunk [simp]:
  "delta_of (text_chunk s) = \<lparr>delta_content = Some s, delta_reasoning = NoAttr\<rparr>"
  by (simp add: delta_of_def text_chunk_def)

lemma delta_of_reasoning_chunk [simp]:
  "delta_of (reasoning_chunk s) = \<lparr>delta_content = None, delta_reasoning = Attr (Some s)\<rparr>"
  by (simp add: delta_of_def reasoning_chunk_def)

lemmas fragment_defs =
  present_contents_def content_present_def content_text_def primary_fragments_def
  primary_chunk_def auxiliary_marked_def auxiliary_fragments_def has_reasoning_def
  has_content_def reasoning_text_def deepseek_echo_def

section \<open>Streaming in text mode\<close>

lemma simple_stream_fragments:
  assumes "list_all (\<lambda>c. \<not> auxiliary_marked c \<and> delta_content (delta_of c) \<noteq> Some []) cs"
  shows "primary_fragments cs = present_contents cs \<and>
         concat (map deepseek_echo cs) = map Print (present_contents cs)"
  using assms
  by (induction cs)
     (auto simp: primary_fragments_def present_contents_def deepseek_echo_def primary_chunk_def
        content_present_def has_content_def split: option.splits)

lemma openai_text_mode:
  assumes "load_config (toml_load w) ''./config.toml'' ''openai'' = Inr cfg"
    and "completions_create w (create_openai_client (cfg_api_key cfg) (cfg_base_url cfg))
           (openai_api_params cfg a) = Some (Stream cs)"
    and "stream a" and "return_type a = ''text''"
  shows "(list_all well_formed cs \<longrightarrow>
            fst (chat_openai w a) = Inr (Text (Some (concat (present_contents cs)))) \<and>
            console (snd (chat_openai w a)) = map Print (present_contents cs) @ [Print newline]) \<and>
         (\<not> list_all well_formed cs \<longrightarrow> (\<exists>e. fst (chat_openai w a) = Inl e))"
proof (intro conjI impI)
  assume wf: "list_all well_formed cs"
  note r = chat_openai_stream_text [OF assms(1,2) wf assms(3,4)]
  show "fst (chat_openai w a) = Inr (Text (Some (concat (present_contents cs))))"
    by (simp add: r)
  show "console (snd (chat_openai w a)) = map Print (present_contents cs) @ [Print newline]"
    by (simp add: r)
next
  assume "\<not> list_all well_formed cs"
  then show "\<exists>e. fst (chat_openai w a) = Inl e"
    by (rule chat_openai_stream_text_fails [OF assms(1,2) _ assms(3,4)])
qed

lemma deepseek_text_mode:
  assumes "load_config (toml_load w) ''./config.toml'' ''deepseek'' = Inr cfg"
    and "completions_create w (create_deepseek_client (cfg_api_key cfg) (cfg_base_url cfg))
           (deepseek_api_params cfg b) = Some (Stream ds)"
    and "stream b" and "return_type b \<noteq> ''json''" and "return_type b \<noteq> ''both''"
  shows "(list_all well_formed ds \<longrightarrow>
            fst (chat_deepseek w b) = Inr (Text (Some (concat (primary_fragments ds)))) \<and>
            console (snd (chat_deepseek w b)) = concat (map deepseek_echo ds) @ [Print newline] \<and>
            (list_all (\<lambda>c. \<not> auxiliary_marked c \<and> delta_content (delta_of c) \<noteq> Some []) ds \<longrightarrow>
               fst (chat_deepseek w b) = Inr (Text (Some (concat (present_contents ds)))) \<and>
               console (snd (chat_deepseek w b)) =
                 map Print (present_contents ds) @ [Print newline])) \<and>
         (\<not> list_all well_formed ds \<longrightarrow> (\<exists>e. fst (chat_deepseek w b) = Inl e))"
proof (intro conjI impI)
  assume wf: "list_all well_formed ds"
  note r = chat_deepseek_stream_text [OF assms(1,2) wf assms(3,4)]
  show p: "fst (chat_deepseek w b) = Inr (Text (Some (concat (primary_fragments ds))))"
    using assms(5) by (simp add: r)
  show e: "console (snd (chat_deepseek w b)) = concat (map deepseek_echo ds) @ [Print newline]"
    by (simp add: r)
  assume s: "list_all (\<lambda>c. \<not> auxiliary_marked c \<and> delta_content (delta_of c) \<noteq> Some []) ds"
  show "fst (chat_deepseek w b) = Inr (Text (Some (concat (present_contents ds))))"
    using p simple_stream_fragments [OF s] by simp
  show "console (snd (chat_deepseek w b)) = map Print (present_contents ds) @ [Print newline]"
    using e simple_stream_fragments [OF s] by simp
next
  assume "\<not> list_all well_formed ds"
  then show "\<exists>e. fst (chat_deepseek w b) = Inl e"
    by (rule chat_deepseek_stream_text_fails [OF assms(1,2) _ assms(3,4)])
qed

text \<open>
  C1 (as amended). A streaming call of \<open>chat_openai\<close> in text mode over well-formed chunks
  returns the concatenation, in arrival order, of the content fragments of the chunks whose
  content is present, and echoes exactly those fragments in order and then a line feed.
  A streaming call of \<open>chat_deepseek\<close> in text mode returns the concatenation of the
  non-empty content fragments of the chunks that carry no reasoning fragment, and echoes,
  in arrival order, the marked reasoning fragment of each chunk that carries one and the
  content fragment of each other chunk with a non-empty content, and then a line feed;
  when no chunk carries a reasoning fragment or an empty content, this is the
  concatenation and the echo of the present content fragments, as for \<open>chat_openai\<close>.
  On a stream with an ill-formed chunk either call fails and returns nothing.
\<close>

theorem streaming_text_accumulation:
  "(load_config (toml_load w) ''./config.toml'' ''openai'' = Inr cfg \<longrightarrow>
    completions_create w (create_openai_client (cfg_api_key cfg) (cfg_base_url cfg))
      (openai_api_params cfg a) = Some (Stream cs) \<longrightarrow>
    stream a \<longrightarrow> return_type a = ''text'' \<longrightarrow>
      (list_all well_formed cs \<longrightarrow>
         fst (chat_openai w a) = Inr (Text (Some (concat (present_contents cs)))) \<and>
         console (snd (chat_openai w a)) = map Print (present_contents cs) @ [Print newline]) \<and>
      (\<not> list_all well_formed cs \<longrightarrow> (\<exists>e. fst (chat_openai w a) = Inl e)))
   \<and>
   (load_config (toml_load w') ''./config.toml'' ''deepseek'' = Inr cfg' \<longrightarrow>
    completions_create w' (create_deepseek_client (cfg_api_key cfg') (cfg_base_url cfg'))
      (deepseek_api_params cfg' b) = Some (Stream ds) \<longrightarrow>
    stream b \<longrightarrow> return_type b = ''text'' \<longrightarrow>
      (list_all well_formed ds \<longrightarrow>
         fst (chat_deepseek w' b) = Inr (Text (Some (concat (primary_fragments ds)))) \<and>
         console (snd (chat_deepseek w' b)) = concat (map deepseek_echo ds) @ [Print newline] \<and>
         (list_all (\<lambda>c. \<not> auxiliary_marked c \<and> delta_content (delta_of c) \<noteq> Some []) ds \<longrightarrow>
            fst (chat_deepseek w' b) = Inr (Text (Some (concat (present_contents ds)))) \<and>
            console (snd (chat_deepseek w' b)) =
              map Print (present_contents ds) @ [Print newline])) \<and>
      (\<not> list_all well_formed ds \<longrightarrow> (\<exists>e. fst (chat_deepseek w' b) = Inl e)))"
proof (rule conjI)
  show "load_config (toml_load w) ''./config.toml'' ''openai'' = Inr cfg \<longrightarrow>
    completions_create w (create_openai_client (cfg_api_key cfg) (cfg_base_url cfg))
      (openai_api_params cfg a) = Some (Stream cs) \<longrightarrow>
    stream a \<longrightarrow> return_type a = ''text'' \<longrightarrow>
      (list_all well_formed cs \<longrightarrow>
         fst (chat_openai w a) = Inr (Text (Some (concat (present_contents cs)))) \<and>
         console (snd (chat_openai w a)) = map Print (present_contents cs) @ [Print newline]) \<and>
      (\<not> list_all well_formed cs \<longrightarrow> (\<exists>e. fst (chat_openai w a) = Inl e))"
    using openai_text_mode [of w cfg a cs] by simp
  have t: "return_type b = ''text'' \<Longrightarrow> return_type b \<noteq> ''json'' \<and> return_type b \<noteq> ''both''"
    by simp
  show "load_config (toml_load w') ''./config.toml'' ''deepseek'' = Inr cfg' \<longrightarrow>
    completions_create w' (create_deepseek_client (cfg_api_key cfg') (cfg_base_url cfg'))
      (deepseek_api_params cfg' b) = Some (Stream ds) \<longrightarrow>
    stream b \<longrightarrow> return_type b = ''text'' \<longrightarrow>
      (list_all well_formed ds \<longrightarrow>
         fst (chat_deepseek w' b) = Inr (Text (Some (concat (primary_fragments ds)))) \<and>
         console (snd (chat_deepseek w' b)) = concat (map deepseek_echo ds) @ [Print newline] \<and>
         (list_all (\<lambda>c. \<not> auxiliary_marked c \<and> delta_content (delta_of c) \<noteq> Some []) ds \<longrightarrow>
            fst (chat_deepseek w' b) = Inr (Text (Some (concat (present_contents ds)))) \<and>
            console (snd (chat_deepseek w' b)) =
              map Print (present_contents ds) @ [Print newline])) \<and>
      (\<not> list_all well_formed ds \<longrightarrow> (\<exists>e. fst (chat_deepseek w' b) = Inl e))"
    using deepseek_text_mode [of w' cfg' b ds] t by blast
qed

theorem streaming_text_accumulation_witness:
  "fst (chat_openai (mock_env example_doc (Stream [text_chunk ''he'', text_chunk ''llo'']))
          (openai_call ''text'' True Map.empty)) = Inr (Text (Some ''hello'')) \<and>
   console (snd (chat_openai (mock_env example_doc (Stream [text_chunk ''he'', text_chunk ''llo'']))
          (openai_call ''text'' True Map.empty))) = [Print ''he'', Print ''llo'', Print newline] \<and>
   fst (chat_deepseek (mock_env example_doc (Stream [reasoning_chunk ''hm'', text_chunk ''hello'']))
          (deepseek_call ''text'' True PNone PNone Map.empty)) = Inr (Text (Some ''hello'')) \<and>
   console (snd (chat_deepseek
          (mock_env example_doc (Stream [reasoning_chunk ''hm'', text_chunk ''hello'']))
          (deepseek_call ''text'' True PNone PNone Map.empty))) =
     [Print (reasoning_marker @ ''hm''), Print ''hello'', Print newline] \<and>
   fst (chat_deepseek (mock_env example_doc (Stream [text_chunk ''he'', text_chunk ''llo'']))
          (deepseek_call ''text'' True PNone PNone Map.empty)) = Inr (Text (Some ''hello'')) \<and>
   console (snd (chat_deepseek (mock_env example_doc (Stream [text_chunk ''he'', text_chunk ''llo'']))
          (deepseek_call ''text'' True PNone PNone Map.empty))) =
     [Print ''he'', Print ''llo'', Print newline]"
  using
    streaming_text_accumulation [of
      "mock_env example_doc (Stream [text_chunk ''he'', text_chunk ''llo''])" openai_cfg
      "openai_call ''text'' True Map.empty" "[text_chunk ''he'', text_chunk ''llo'']"
      "mock_env example_doc (Stream [reasoning_chunk ''hm'', text_chunk ''hello''])" deepseek_cfg
      "deepseek_call ''text'' True PNone PNone Map.empty"
      "[reasoning_chunk ''hm'', text_chunk ''hello'']"]
    streaming_text_accumulation [of
      "mock_env example_doc (Stream [text_chunk ''he'', text_chunk ''llo''])" openai_cfg
      "openai_call ''text'' True Map.empty" "[text_chunk ''he'', text_chunk ''llo'']"
      "mock_env example_doc (Stream [text_chunk ''he'', text_chunk ''llo''])" deepseek_cfg
      "deepseek_call ''text'' True PNone PNone Map.empty"
      "[text_chunk ''he'', text_chunk ''llo'']"]
  by (simp add: example_load_openai example_load_deepseek example_create openai_call_def
      deepseek_call_def fragment_defs)

text \<open>
  C1 as stated fails for \<open>chat_deepseek\<close>: a reasoning chunk is echoed with its marker,
  so the echo is not the sequence of the content fragments.
\<close>

theorem streaming_text_echo_counterexample:
  "stream (deepseek_call ''text'' True PNone PNone Map.empty) \<and>
   return_type (deepseek_call ''text'' True PNone PNone Map.empty) = ''text'' \<and>
   present_contents [reasoning_chunk ''hm'', text_chunk ''hello''] = [''hello''] \<and>
   console (snd (chat_deepseek
      (mock_env example_doc (Stream [reasoning_chunk ''hm'', text_chunk ''hello'']))
      (deepseek_call ''text'' True PNone PNone Map.empty))) \<noteq>
     map Print (present_contents [reasoning_chunk ''hm'', text_chunk ''hello'']) @ [Print newline]"
  by (simp add: chat_deepseek_stream_text example_load_deepseek example_create
      deepseek_call_def fragment_defs)

section \<open>The outgoing request\<close>

text \<open>
  Python binds a keyword argument that names a parameter to that parameter, so the
  \<^verbatim>\<open>**kwargs\<close> of \<open>chat_deepseek\<close> never holds the keys \<^verbatim>\<open>model\<close>, \<^verbatim>\<open>messages\<close> or
  \<^verbatim>\<open>stream\<close>, and that of \<open>chat_openai\<close> never holds \<^verbatim>\<open>stream\<close>. The statements about
  the parameters \<^verbatim>\<open>model\<close> and \<^verbatim>\<open>messages\<close> of \<open>chat_deepseek\<close> therefore assume that
  the passthrough dictionary has no such key.
\<close>

text \<open>
  C2. When \<open>chat_deepseek\<close> is called with a message history that is not \<^verbatim>\<open>None\<close>, the one
  request it dispatches carries that history verbatim as its \<^verbatim>\<open>messages\<close>: the
  system/user pair is not synthesized.
\<close>

theorem supplied_history_verbatim:
  assumes "load_config (toml_load w) ''./config.toml'' ''deepseek'' = Inr cfg"
    and "messages a \<noteq> PNone"
    and "kwargs a ''messages'' = None"
  shows "map (\<lambda>(c, p). p ''messages'') (requests (snd (chat_deepseek w a))) =
           [Some (messages a)]"
  using assms(2,3)
  by (simp add: chat_deepseek_requests [OF assms(1)] deepseek_api_params_def map_add_def)

theorem supplied_history_verbatim_witness:
  "messages (deepseek_call ''text'' False PNone
      (PList [PDict [(''role'', PStr ''user''), (''content'', PStr ''again'')]]) Map.empty) \<noteq> PNone \<and>
   map (\<lambda>(c, p). p ''messages'')
     (requests (snd (chat_deepseek (mock_env example_doc (mock_completion ''hello'' NoAttr))
        (deepseek_call ''text'' False PNone
           (PList [PDict [(''role'', PStr ''user''), (''content'', PStr ''again'')]]) Map.empty)))) =
     [Some (PList [PDict [(''role'', PStr ''user''), (''content'', PStr ''again'')]])]"
  using supplied_history_verbatim [of "mock_env example_doc (mock_completion ''hello'' NoAttr)"
      deepseek_cfg
      "deepseek_call ''text'' False PNone
         (PList [PDict [(''role'', PStr ''user''), (''content'', PStr ''again'')]]) Map.empty"]
  by (simp add: example_load_deepseek deepseek_call_def)

text \<open>
  C6 (as amended). When \<open>chat_deepseek\<close> is called with a truthy model override (a
  non-empty string), the \<^verbatim>\<open>model\<close> of the request is the override; when no override is
  supplied (\<^verbatim>\<open>None\<close>), it is the configured default.
\<close>

theorem model_override:
  assumes "load_config (toml_load w) ''./config.toml'' ''deepseek'' = Inr cfg"
    and "kwargs a ''model'' = None"
  shows "(truthy (model a) \<longrightarrow>
            map (\<lambda>(c, p). p ''model'') (requests (snd (chat_deepseek w a))) = [Some (model a)]) \<and>
         (model a = PNone \<longrightarrow>
            map (\<lambda>(c, p). p ''model'') (requests (snd (chat_deepseek w a))) =
              [Some (cfg_model cfg)])"
  using assms(2)
  by (auto simp: chat_deepseek_requests [OF assms(1)] deepseek_api_params_def map_add_def)

theorem model_override_witness:
  "map (\<lambda>(c, p). p ''model'')
     (requests (snd (chat_deepseek (mock_env example_doc (mock_completion ''hello'' NoAttr))
        (deepseek_call ''text'' False (PStr ''deepseek-reasoner'') PNone Map.empty)))) =
     [Some (PStr ''deepseek-reasoner'')] \<and>
   map (\<lambda>(c, p). p ''model'')
     (requests (snd (chat_deepseek (mock_env example_doc (mock_completion ''hello'' NoAttr))
        (deepseek_call ''text'' False PNone PNone Map.empty)))) =
     [Some (PStr ''deepseek-chat'')]"
  using
    model_override [of "mock_env example_doc (mock_completion ''hello'' NoAttr)" deepseek_cfg
      "deepseek_call ''text'' False (PStr ''deepseek-reasoner'') PNone Map.empty"]
    model_override [of "mock_env example_doc (mock_completion ''hello'' NoAttr)" deepseek_cfg
      "deepseek_call ''text'' False PNone PNone Map.empty"]
  by (simp add: example_load_deepseek deepseek_call_def deepseek_cfg_def)

text \<open>
  C6 as stated fails for the empty string: it is an explicit override, and
  \<^verbatim>\<open>model or cfg["model"]\<close> sends the configured default.
\<close>

theorem empty_model_override_counterexample:
  "model (deepseek_call ''text'' False (PStr []) PNone Map.empty) \<noteq> PNone \<and>
   map (\<lambda>(c, p). p ''model'')
     (requests (snd (chat_deepseek (mock_env example_doc (mock_completion ''hello'' NoAttr))
        (deepseek_call ''text'' False (PStr []) PNone Map.empty)))) =
     [Some (PStr ''deepseek-chat'')] \<and>
   map (\<lambda>(c, p). p ''model'')
     (requests (snd (chat_deepseek (mock_env example_doc (mock_completion ''hello'' NoAttr))
        (deepseek_call ''text'' False (PStr []) PNone Map.empty)))) \<noteq>
     [Some (model (deepseek_call ''text'' False (PStr []) PNone Map.empty))]"
  by (simp add: chat_deepseek_requests [OF example_load_deepseek] deepseek_api_params_def
      deepseek_call_def deepseek_cfg_def)

text \<open>
  C9. The request dictionary is the literal of the wrapper-computed \<^verbatim>\<open>model\<close>,
  \<^verbatim>\<open>messages\<close> and \<^verbatim>\<open>stream\<close> with \<^verbatim>\<open>**kwargs\<close> merged last, in \<open>chat_openai\<close> and in
  \<open>chat_deepseek\<close> alike. So whatever key the passthrough dictionary of \<open>chat_openai\<close>
  holds, the request carries the passthrough value under that key in place of the
  wrapper-computed one: a \<^verbatim>\<open>model\<close> or \<^verbatim>\<open>messages\<close> passed through replaces the configured
  model or the synthesized messages, and without such a key the wrapper-computed value is
  sent. (At a call of \<open>chat_deepseek\<close> the three names are parameters, so its passthrough
  dictionary cannot hold them; the same merge carries its other passthrough keys.)
\<close>

theorem passthrough_merged_last:
  "(load_config (toml_load w) ''./config.toml'' ''openai'' = Inr cfg \<longrightarrow>
      requests (snd (chat_openai w a)) =
        [(create_openai_client (cfg_api_key cfg) (cfg_base_url cfg),
          [''model'' \<mapsto> cfg_model cfg,
           ''messages'' \<mapsto> synthesized_messages (system a) (content a),
           ''stream'' \<mapsto> PBool (stream a)] ++ kwargs a)] \<and>
      (\<forall>k v. kwargs a k = Some v \<longrightarrow>
         map (\<lambda>(c, p). p k) (requests (snd (chat_openai w a))) = [Some v]) \<and>
      (kwargs a ''model'' = None \<longrightarrow>
         map (\<lambda>(c, p). p ''model'') (requests (snd (chat_openai w a))) =
           [Some (cfg_model cfg)]) \<and>
      (kwargs a ''messages'' = None \<longrightarrow>
         map (\<lambda>(c, p). p ''messages'') (requests (snd (chat_openai w a))) =
           [Some (synthesized_messages (system a) (content a))]))
   \<and>
   (load_config (toml_load w') ''./config.toml'' ''deepseek'' = Inr cfg' \<longrightarrow>
      requests (snd (chat_deepseek w' b)) =
        [(create_deepseek_client (cfg_api_key cfg') (cfg_base_url cfg'),
          [''model'' \<mapsto> (if truthy (model b) then model b else cfg_model cfg'),
           ''messages'' \<mapsto>
              (if messages b = PNone then synthesized_messages (system b) (content b)
               else messages b),
           ''stream'' \<mapsto> PBool (stream b)] ++ kwargs b)])"
proof (intro conjI impI allI)
  assume l: "load_config (toml_load w) ''./config.toml'' ''openai'' = Inr cfg"
  note r = chat_openai_requests [OF l, of a]
  show "requests (snd (chat_openai w a)) =
        [(create_openai_client (cfg_api_key cfg) (cfg_base_url cfg),
          [''model'' \<mapsto> cfg_model cfg,
           ''messages'' \<mapsto> synthesized_messages (system a) (content a),
           ''stream'' \<mapsto> PBool (stream a)] ++ kwargs a)]"
    by (simp only: r openai_api_params_def)
  {
    fix k v
    assume "kwargs a k = Some v"
    then show "map (\<lambda>(c, p). p k) (requests (snd (chat_openai w a))) = [Some v]"
      by (simp add: r openai_api_params_def map_add_def)
  }
  {
    assume "kwargs a ''model'' = None"
    then show "map (\<lambda>(c, p). p ''model'') (requests (snd (chat_openai w a))) =
                 [Some (cfg_model cfg)]"
      by (simp add: r openai_api_params_def map_add_def)
  }
  assume "kwargs a ''messages'' = None"
  then show "map (\<lambda>(c, p). p ''messages'') (requests (snd (chat_openai w a))) =
               [Some (synthesized_messages (system a) (content a))]"
    by (simp add: r openai_api_params_def map_add_def)
next
  assume l: "load_config (toml_load w') ''./config.toml'' ''deepseek'' = Inr cfg'"
  show "requests (snd (chat_deepseek w' b)) =
        [(create_deepseek_client (cfg_api_key cfg') (cfg_base_url cfg'),
          [''model'' \<mapsto> (if truthy (model b) then model b else cfg_model cfg'),
           ''messages'' \<mapsto>
              (if messages b = PNone then synthesized_messages (system b) (content b)
               else messages b),
           ''stream'' \<mapsto> PBool (stream b)] ++ kwargs b)]"
    by (simp only: chat_deepseek_requests [OF l] deepseek_api_params_def)
qed

theorem passthrough_merged_last_witness:
  "cfg_model openai_cfg = PStr ''gpt-x'' \<and>
   map (\<lambda>(c, p). (p ''model'', p ''messages'', p ''stream''))
     (requests (snd (chat_openai (mock_env example_doc (mock_completion ''hello'' NoAttr))
        (openai_call ''text'' False
           [''model'' \<mapsto> PStr ''gpt-y'', ''messages'' \<mapsto> PList []])))) =
     [(Some (PStr ''gpt-y''), Some (PList []), Some (PBool False))] \<and>
   map (\<lambda>(c, p). (p ''model'', p ''messages'', p ''stream''))
     (requests (snd (chat_openai (mock_env example_doc (mock_completion ''hello'' NoAttr))
        (openai_call ''text'' False Map.empty)))) =
     [(Some (PStr ''gpt-x''), Some (synthesized_messages ''be brief'' ''hi''),
       Some (PBool False))] \<and>
   map (\<lambda>(c, p). (p ''model'', p ''stream'', p ''max_tokens''))
     (requests (snd (chat_deepseek (mock_env example_doc (mock_completion ''hello'' NoAttr))
        (deepseek_call ''text'' False PNone PNone [''max_tokens'' \<mapsto> PInt 64])))) =
     [(Some (PStr ''deepseek-chat''), Some (PBool False), Some (PInt 64))]"
  using
    passthrough_merged_last [of
      "mock_env example_doc (mock_completion ''hello'' NoAttr)" openai_cfg
      "openai_call ''text'' False [''model'' \<mapsto> PStr ''gpt-y'', ''messages'' \<mapsto> PList []]"
      "mock_env example_doc (mock_completion ''hello'' NoAttr)" deepseek_cfg
      "deepseek_call ''text'' False PNone PNone [''max_tokens'' \<mapsto> PInt 64]"]
    passthrough_merged_last [of
      "mock_env example_doc (mock_completion ''hello'' NoAttr)" openai_cfg
      "openai_call ''text'' False Map.empty"
      "mock_env example_doc (mock_completion ''hello'' NoAttr)" deepseek_cfg
      "deepseek_call ''text'' False PNone PNone [''max_tokens'' \<mapsto> PInt 64]"]
  by (simp add: example_load_openai example_load_deepseek openai_call_def deepseek_call_def
      openai_cfg_def deepseek_cfg_def)

section \<open>Invalid output modes and missing configuration\<close>

text \<open>
  C3 (as amended). For every output-mode string other than \<^verbatim>\<open>"json"\<close> and \<^verbatim>\<open>"text"\<close>,
  a call of \<open>chat_openai\<close> whose configuration loads and whose remote call returns fails
  with \<^verbatim>\<open>ValueError\<close>, streaming or not; by then the one remote request has been
  dispatched, and nothing has been echoed.
\<close>

theorem invalid_mode_openai:
  assumes "load_config (toml_load w) ''./config.toml'' ''openai'' = Inr cfg"
    and "completions_create w (create_openai_client (cfg_api_key cfg) (cfg_base_url cfg))
           (openai_api_params cfg a) = Some response"
    and "return_type a \<noteq> ''json''" and "return_type a \<noteq> ''text''"
  shows "chat_openai w a =
           (Inl ValueError,
            [Request (create_openai_client (cfg_api_key cfg) (cfg_base_url cfg))
               (openai_api_params cfg a)])"
  using assms by (simp add: chat_openai_def Let_def)

theorem invalid_mode_openai_witness:
  "fst (chat_openai (mock_env example_doc (Stream [text_chunk ''he'']))
          (openai_call ''xml'' True Map.empty)) = Inl ValueError \<and>
   console (snd (chat_openai (mock_env example_doc (Stream [text_chunk ''he'']))
          (openai_call ''xml'' True Map.empty))) = [] \<and>
   fst (chat_openai (mock_env example_doc (mock_completion ''hello'' NoAttr))
          (openai_call ''xml'' False Map.empty)) = Inl ValueError \<and>
   length (requests (snd (chat_openai (mock_env example_doc (mock_completion ''hello'' NoAttr))
          (openai_call ''xml'' False Map.empty)))) = 1"
  using
    invalid_mode_openai [of "mock_env example_doc (Stream [text_chunk ''he''])" openai_cfg
      "openai_call ''xml'' True Map.empty" "Stream [text_chunk ''he'']"]
    invalid_mode_openai [of "mock_env example_doc (mock_completion ''hello'' NoAttr)" openai_cfg
      "openai_call ''xml'' False Map.empty" "mock_completion ''hello'' NoAttr"]
  by (simp add: example_load_openai example_create openai_call_def)

text \<open>
  C3 as stated fails on the non-streaming path: the request is dispatched at line 109,
  before the output mode is looked at, so a remote request is observable.
\<close>

theorem invalid_mode_request_counterexample:
  "\<not> stream (openai_call ''xml'' False Map.empty) \<and>
   return_type (openai_call ''xml'' False Map.empty) = ''xml'' \<and>
   fst (chat_openai (mock_env example_doc (mock_completion ''hello'' NoAttr))
          (openai_call ''xml'' False Map.empty)) = Inl ValueError \<and>
   requests (snd (chat_openai (mock_env example_doc (mock_completion ''hello'' NoAttr))
          (openai_call ''xml'' False Map.empty))) \<noteq> []"
  by (simp add: chat_openai_requests [OF example_load_openai] chat_openai_def
      example_load_openai example_create openai_call_def)

text \<open>
  C7. When the configuration file has no section for the requested service, or the
  section is a table without \<^verbatim>\<open>api_key\<close>, \<open>load_config\<close> fails with \<^verbatim>\<open>KeyError\<close> (the
  not-found error of a dictionary), and \<open>chat_openai\<close> and \<open>chat_deepseek\<close> fail with it
  before any remote request and any echo: their trace is empty.
\<close>

theorem missing_section_or_key:
  assumes "toml_load w ''./config.toml'' = Some doc"
    and "map_of doc service = None \<or>
         (\<exists>kvs. map_of doc service = Some (PDict kvs) \<and> map_of kvs ''api_key'' = None)"
  shows "load_config (toml_load w) ''./config.toml'' service =
           Inl (KeyError (if map_of doc service = None then service else ''api_key'')) \<and>
         (service = ''openai'' \<longrightarrow>
            chat_openai w a =
              (Inl (KeyError (if map_of doc service = None then service else ''api_key'')), [])) \<and>
         (service = ''deepseek'' \<longrightarrow>
            chat_deepseek w b =
              (Inl (KeyError (if map_of doc service = None then service else ''api_key'')), []))"
proof -
  have l: "load_config (toml_load w) ''./config.toml'' service =
           Inl (KeyError (if map_of doc service = None then service else ''api_key''))"
    using assms by (auto simp: load_config_def)
  show ?thesis
    using l by (auto simp: chat_openai_def chat_deepseek_def)
qed

theorem missing_section_or_key_witness:
  "map_of [(''openai'', PDict [(''model'', PStr ''gpt-x'')])] ''deepseek'' = None \<and>
   chat_deepseek (mock_env [(''openai'', PDict [(''model'', PStr ''gpt-x'')])]
       (mock_completion ''hello'' NoAttr)) (deepseek_call ''text'' False PNone PNone Map.empty) =
     (Inl (KeyError ''deepseek''), []) \<and>
   chat_openai (mock_env [(''openai'', PDict [(''model'', PStr ''gpt-x'')])]
       (mock_completion ''hello'' NoAttr)) (openai_call ''text'' False Map.empty) =
     (Inl (KeyError ''api_key''), [])"
  using
    missing_section_or_key [of
      "mock_env [(''openai'', PDict [(''model'', PStr ''gpt-x'')])] (mock_completion ''hello'' NoAttr)"
      "[(''openai'', PDict [(''model'', PStr ''gpt-x'')])]" "''deepseek''"
      "openai_call ''text'' False Map.empty" "deepseek_call ''text'' False PNone PNone Map.empty"]
    missing_section_or_key [of
      "mock_env [(''openai'', PDict [(''model'', PStr ''gpt-x'')])] (mock_completion ''hello'' NoAttr)"
      "[(''openai'', PDict [(''model'', PStr ''gpt-x'')])]" "''openai''"
      "openai_call ''text'' False Map.empty" "deepseek_call ''text'' False PNone PNone Map.empty"]
  by (simp add: mock_env_def)

section \<open>Streaming in raw mode\<close>

lemma chat_openai_stream_json:
  assumes "load_config (toml_load w) ''./config.toml'' ''openai'' = Inr cfg"
    and "completions_create w (create_openai_client (cfg_api_key cfg) (cfg_base_url cfg))
           (openai_api_params cfg a) = Some (Stream cs)"
    and "list_all well_formed cs" and "stream a" and "return_type a = ''json''"
  shows "chat_openai w a =
           (Inr (Chunks (filter content_present cs)),
            Request (create_openai_client (cfg_api_key cfg) (cfg_base_url cfg))
              (openai_api_params cfg a) # map PrintChunk (filter content_present cs))"
  using assms by (simp add: chat_openai_def Let_def iterate_def openai_stream_json_wf)

lemma chat_deepseek_stream_json:
  assumes "load_config (toml_load w) ''./config.toml'' ''deepseek'' = Inr cfg"
    and "completions_create w (create_deepseek_client (cfg_api_key cfg) (cfg_base_url cfg))
           (deepseek_api_params cfg a) = Some (Stream cs)"
    and "list_all has_choice cs" and "stream a" and "return_type a = ''json''"
  shows "chat_deepseek w a =
           (Inr (Chunks (filter well_formed cs)),
            Request (create_deepseek_client (cfg_api_key cfg) (cfg_base_url cfg))
              (deepseek_api_params cfg a) # map PrintChunk (filter well_formed cs))"
  using assms by (simp add: chat_deepseek_def Let_def iterate_def deepseek_stream_json_ok)

text \<open>
  C5 (as amended). A streaming call in raw (\<^verbatim>\<open>"json"\<close>) mode returns a list of chunks in
  arrival order and echoes exactly the chunks of that list, each as it arrives. For
  \<open>chat_openai\<close>, over well-formed chunks, the list holds the chunks whose content is
  present (not \<^verbatim>\<open>None\<close>; the empty string counts as present); for \<open>chat_deepseek\<close>, over
  chunks that have a first choice, it holds every chunk whose delta is not \<^verbatim>\<open>None\<close>,
  whatever its content. On any other stream the call fails and returns nothing.
\<close>

theorem streaming_raw_chunks:
  "(load_config (toml_load w) ''./config.toml'' ''openai'' = Inr cfg \<longrightarrow>
    completions_create w (create_openai_client (cfg_api_key cfg) (cfg_base_url cfg))
      (openai_api_params cfg a) = Some (Stream cs) \<longrightarrow>
    stream a \<longrightarrow> return_type a = ''json'' \<longrightarrow>
      (list_all well_formed cs \<longrightarrow>
         fst (chat_openai w a) = Inr (Chunks (filter content_present cs)) \<and>
         console (snd (chat_openai w a)) = map PrintChunk (filter content_present cs)) \<and>
      (\<not> list_all well_formed cs \<longrightarrow> (\<exists>e. fst (chat_openai w a) = Inl e)))
   \<and>
   (load_config (toml_load w') ''./config.toml'' ''deepseek'' = Inr cfg' \<longrightarrow>
    completions_create w' (create_deepseek_client (cfg_api_key cfg') (cfg_base_url cfg'))
      (deepseek_api_params cfg' b) = Some (Stream ds) \<longrightarrow>
    stream b \<longrightarrow> return_type b = ''json'' \<longrightarrow>
      (list_all has_choice ds \<longrightarrow>
         fst (chat_deepseek w' b) = Inr (Chunks (filter well_formed ds)) \<and>
         console (snd (chat_deepseek w' b)) = map PrintChunk (filter well_formed ds)) \<and>
      (\<not> list_all has_choice ds \<longrightarrow> (\<exists>e. fst (chat_deepseek w' b) = Inl e)))"
  by (simp add: chat_openai_stream_json chat_deepseek_stream_json
      chat_openai_stream_json_fails chat_deepseek_stream_json_fails)

theorem streaming_raw_chunks_witness:
  "fst (chat_openai (mock_env example_doc (Stream [reasoning_chunk ''hm'', text_chunk [], text_chunk ''hi'']))
          (openai_call ''json'' True Map.empty)) = Inr (Chunks [text_chunk [], text_chunk ''hi'']) \<and>
   console (snd (chat_openai
          (mock_env example_doc (Stream [reasoning_chunk ''hm'', text_chunk [], text_chunk ''hi'']))
          (openai_call ''json'' True Map.empty))) =
     [PrintChunk (text_chunk []), PrintChunk (text_chunk ''hi'')] \<and>
   fst (chat_deepseek
          (mock_env example_doc
             (Stream [reasoning_chunk ''hm'', \<lparr>chunk_choices = [\<lparr>choice_delta = None\<rparr>]\<rparr>,
                      text_chunk ''hi'']))
          (deepseek_call ''json'' True PNone PNone Map.empty)) =
     Inr (Chunks [reasoning_chunk ''hm'', text_chunk ''hi'']) \<and>
   console (snd (chat_deepseek
          (mock_env example_doc
             (Stream [reasoning_chunk ''hm'', \<lparr>chunk_choices = [\<lparr>choice_delta = None\<rparr>]\<rparr>,
                      text_chunk ''hi'']))
          (deepseek_call ''json'' True PNone PNone Map.empty))) =
     [PrintChunk (reasoning_chunk ''hm''), PrintChunk (text_chunk ''hi'')]"
  using streaming_raw_chunks [of
      "mock_env example_doc (Stream [reasoning_chunk ''hm'', text_chunk [], text_chunk ''hi''])"
      openai_cfg "openai_call ''json'' True Map.empty"
      "[reasoning_chunk ''hm'', text_chunk [], text_chunk ''hi'']"
      "mock_env example_doc
         (Stream [reasoning_chunk ''hm'', \<lparr>chunk_choices = [\<lparr>choice_delta = None\<rparr>]\<rparr>,
                  text_chunk ''hi''])"
      deepseek_cfg "deepseek_call ''json'' True PNone PNone Map.empty"
      "[reasoning_chunk ''hm'', \<lparr>chunk_choices = [\<lparr>choice_delta = None\<rparr>]\<rparr>, text_chunk ''hi'']"]
  by (simp add: example_load_openai example_load_deepseek example_create openai_call_def
      deepseek_call_def content_present_def has_choice_def well_formed_def text_chunk_def
      reasoning_chunk_def delta_of_def)

text \<open>
  C5 as stated fails for \<open>chat_deepseek\<close>: a chunk that carries only a reasoning fragment
  has no content, and it is kept.
\<close>

theorem streaming_raw_chunks_counterexample:
  "stream (deepseek_call ''json'' True PNone PNone Map.empty) \<and>
   return_type (deepseek_call ''json'' True PNone PNone Map.empty) = ''json'' \<and>
   delta_content (delta_of (reasoning_chunk ''hm'')) = None \<and>
   fst (chat_deepseek (mock_env example_doc (Stream [reasoning_chunk ''hm'', text_chunk ''hi'']))
          (deepseek_call ''json'' True PNone PNone Map.empty)) =
     Inr (Chunks [reasoning_chunk ''hm'', text_chunk ''hi'']) \<and>
   fst (chat_deepseek (mock_env example_doc (Stream [reasoning_chunk ''hm'', text_chunk ''hi'']))
          (deepseek_call ''json'' True PNone PNone Map.empty)) \<noteq>
     Inr (Chunks (filter content_present [reasoning_chunk ''hm'', text_chunk ''hi'']))"
  by (simp add: chat_deepseek_stream_json example_load_deepseek example_create
      deepseek_call_def content_present_def has_choice_def text_chunk_def reasoning_chunk_def
      delta_of_def well_formed_def)

section \<open>Dual-channel streaming\<close>

lemma fragments_of_unmarked:
  "primary_fragments (filter (\<lambda>c. \<not> auxiliary_marked c) cs) = primary_fragments cs \<and>
   auxiliary_fragments (filter (\<lambda>c. \<not> auxiliary_marked c) cs) = []"
  by (induction cs) (simp_all add: primary_fragments_def auxiliary_fragments_def primary_chunk_def)

lemma fragments_of_marked:
  "primary_fragments (filter auxiliary_marked cs) = [] \<and>
   auxiliary_fragments (filter auxiliary_marked cs) = auxiliary_fragments cs"
  by (induction cs) (simp_all add: primary_fragments_def auxiliary_fragments_def primary_chunk_def)

lemma list_all_filter: "list_all P xs \<Longrightarrow> list_all P (filter Q xs)"
  by (induction xs) simp_all

text \<open>
  C4. A streaming call of \<open>chat_deepseek\<close> in \<^verbatim>\<open>"both"\<close> mode over well-formed chunks
  returns the pair of the concatenated primary fragments and the concatenated auxiliary
  fragments, in arrival order. The auxiliary-marked chunks alone leave the primary
  accumulator empty, and the other chunks alone leave the auxiliary accumulator empty:
  neither kind contributes to the other accumulator. On a stream with an ill-formed chunk
  the call fails and returns nothing.
\<close>

theorem dual_channel_streaming:
  assumes "load_config (toml_load w) ''./config.toml'' ''deepseek'' = Inr cfg"
    and "completions_create w (create_deepseek_client (cfg_api_key cfg) (cfg_base_url cfg))
           (deepseek_api_params cfg a) = Some (Stream cs)"
    and "stream a" and "return_type a = ''both''"
  shows "(list_all well_formed cs \<longrightarrow>
            fst (chat_deepseek w a) =
              Inr (Both (Some (concat (primary_fragments cs)))
                        (Some (concat (auxiliary_fragments cs)))) \<and>
            fst (deepseek_stream_text (filter auxiliary_marked cs) [] []) =
              Inr ([], concat (auxiliary_fragments cs)) \<and>
            fst (deepseek_stream_text (filter (\<lambda>c. \<not> auxiliary_marked c) cs) [] []) =
              Inr (concat (primary_fragments cs), [])) \<and>
         (\<not> list_all well_formed cs \<longrightarrow> (\<exists>e. fst (chat_deepseek w a) = Inl e))"
proof (intro conjI impI)
  from assms(4) have nj: "return_type a \<noteq> ''json''" by simp
  {
    assume wf: "list_all well_formed cs"
    show "fst (chat_deepseek w a) =
            Inr (Both (Some (concat (primary_fragments cs)))
                      (Some (concat (auxiliary_fragments cs))))"
      using assms(4) by (simp add: chat_deepseek_stream_text [OF assms(1,2) wf assms(3) nj])
    show "fst (deepseek_stream_text (filter auxiliary_marked cs) [] []) =
            Inr ([], concat (auxiliary_fragments cs))"
      by (simp add: deepseek_stream_text_wf [OF list_all_filter [OF wf]] fragments_of_marked)
    show "fst (deepseek_stream_text (filter (\<lambda>c. \<not> auxiliary_marked c) cs) [] []) =
            Inr (concat (primary_fragments cs), [])"
      by (simp add: deepseek_stream_text_wf [OF list_all_filter [OF wf]] fragments_of_unmarked)
  }
  assume "\<not> list_all well_formed cs"
  then show "\<exists>e. fst (chat_deepseek w a) = Inl e"
    by (rule chat_deepseek_stream_text_fails [OF assms(1,2) _ assms(3) nj])
qed

theorem dual_channel_streaming_witness:
  "fst (chat_deepseek
          (mock_env example_doc
             (Stream [reasoning_chunk ''th'', reasoning_chunk ''ink'', text_chunk ''he'',
                      text_chunk ''llo'']))
          (deepseek_call ''both'' True PNone PNone Map.empty)) =
     Inr (Both (Some ''hello'') (Some ''think'')) \<and>
   fst (deepseek_stream_text
          (filter auxiliary_marked
             [reasoning_chunk ''th'', reasoning_chunk ''ink'', text_chunk ''he'',
              text_chunk ''llo'']) [] []) = Inr ([], ''think'') \<and>
   fst (deepseek_stream_text
          (filter (\<lambda>c. \<not> auxiliary_marked c)
             [reasoning_chunk ''th'', reasoning_chunk ''ink'', text_chunk ''he'',
              text_chunk ''llo'']) [] []) = Inr (''hello'', [])"
  using dual_channel_streaming [of
      "mock_env example_doc
         (Stream [reasoning_chunk ''th'', reasoning_chunk ''ink'', text_chunk ''he'',
                  text_chunk ''llo''])"
      deepseek_cfg "deepseek_call ''both'' True PNone PNone Map.empty"
      "[reasoning_chunk ''th'', reasoning_chunk ''ink'', text_chunk ''he'', text_chunk ''llo'']"]
  by (simp add: example_load_deepseek example_create deepseek_call_def fragment_defs)

section \<open>The other output modes of chat_deepseek\<close>

text \<open>
  C8. A non-streaming call of \<open>chat_deepseek\<close> in \<^verbatim>\<open>"both"\<close> mode returns the pair of the
  content of the first choice's message and its \<^verbatim>\<open>reasoning_content\<close>; when the message
  has no such attribute, the second component is the empty string. (A response without
  any choice makes the call fail with \<^verbatim>\<open>IndexError\<close>.)
\<close>

theorem dual_channel_non_streaming:
  assumes "load_config (toml_load w) ''./config.toml'' ''deepseek'' = Inr cfg"
    and "completions_create w (create_deepseek_client (cfg_api_key cfg) (cfg_base_url cfg))
           (deepseek_api_params cfg a) = Some (Completion r)"
    and "\<not> stream a" and "return_type a = ''both''"
  shows "fst (chat_deepseek w a) =
           (case choices r of
              [] \<Rightarrow> Inl IndexError
            | c # _ \<Rightarrow>
                Inr (Both (msg_content (choice_message c))
                       (case msg_reasoning (choice_message c) of
                          NoAttr \<Rightarrow> Some [] | Attr v \<Rightarrow> v)))"
  using assms
  by (simp add: chat_deepseek_def Let_def first_message_def getattr_reasoning_def
      split: list.splits)

theorem dual_channel_non_streaming_witness:
  "fst (chat_deepseek (mock_env example_doc (mock_completion ''hello'' NoAttr))
          (deepseek_call ''both'' False PNone PNone Map.empty)) =
     Inr (Both (Some ''hello'') (Some [])) \<and>
   fst (chat_deepseek (mock_env example_doc (mock_completion ''hello'' (Attr (Some ''think''))))
          (deepseek_call ''both'' False PNone PNone Map.empty)) =
     Inr (Both (Some ''hello'') (Some ''think''))"
  using
    dual_channel_non_streaming [of "mock_env example_doc (mock_completion ''hello'' NoAttr)"
      deepseek_cfg "deepseek_call ''both'' False PNone PNone Map.empty"
      "\<lparr>choices = [\<lparr>choice_message = \<lparr>msg_content = Some ''hello'', msg_reasoning = NoAttr\<rparr>\<rparr>]\<rparr>"]
    dual_channel_non_streaming [of
      "mock_env example_doc (mock_completion ''hello'' (Attr (Some ''think'')))"
      deepseek_cfg "deepseek_call ''both'' False PNone PNone Map.empty"
      "\<lparr>choices = [\<lparr>choice_message =
          \<lparr>msg_content = Some ''hello'', msg_reasoning = Attr (Some ''think'')\<rparr>\<rparr>]\<rparr>"]
  by (simp add: example_load_deepseek example_create deepseek_call_def mock_completion_def)

text \<open>
  C10. With an output mode other than \<^verbatim>\<open>"json"\<close> and \<^verbatim>\<open>"both"\<close>, valid or not,
  \<open>chat_deepseek\<close> never fails with \<^verbatim>\<open>ValueError\<close>: a streaming call over well-formed chunks
  returns the concatenated primary content as text mode does, and a non-streaming call
  returns the content of the first choice's message (it fails with \<^verbatim>\<open>IndexError\<close> when
  the response has no choice).
\<close>

theorem deepseek_mode_fallthrough:
  assumes "return_type a \<noteq> ''json''" and "return_type a \<noteq> ''both''"
  shows "fst (chat_deepseek w a) \<noteq> Inl ValueError \<and>
         (load_config (toml_load w) ''./config.toml'' ''deepseek'' = Inr cfg \<longrightarrow>
          completions_create w (create_deepseek_client (cfg_api_key cfg) (cfg_base_url cfg))
            (deepseek_api_params cfg a) = Some (Stream cs) \<longrightarrow>
          stream a \<longrightarrow>
            (list_all well_formed cs \<longrightarrow>
               fst (chat_deepseek w a) = Inr (Text (Some (concat (primary_fragments cs))))) \<and>
            (\<not> list_all well_formed cs \<longrightarrow> (\<exists>e. fst (chat_deepseek w a) = Inl e))) \<and>
         (load_config (toml_load w) ''./config.toml'' ''deepseek'' = Inr cfg \<longrightarrow>
          completions_create w (create_deepseek_client (cfg_api_key cfg) (cfg_base_url cfg))
            (deepseek_api_params cfg a) = Some (Completion r) \<longrightarrow>
          \<not> stream a \<longrightarrow>
            fst (chat_deepseek w a) =
              (case choices r of
                 [] \<Rightarrow> Inl IndexError
               | c # _ \<Rightarrow> Inr (Text (msg_content (choice_message c)))))"
proof (intro conjI impI)
  show "fst (chat_deepseek w a) \<noteq> Inl ValueError"
    by (rule chat_deepseek_not_ValueError)
next
  assume h: "load_config (toml_load w) ''./config.toml'' ''deepseek'' = Inr cfg"
    "completions_create w (create_deepseek_client (cfg_api_key cfg) (cfg_base_url cfg))
       (deepseek_api_params cfg a) = Some (Stream cs)"
    and st: "stream a"
  {
    assume wf: "list_all well_formed cs"
    show "fst (chat_deepseek w a) = Inr (Text (Some (concat (primary_fragments cs))))"
      using assms(2) by (simp add: chat_deepseek_stream_text [OF h wf st assms(1)])
  }
  assume "\<not> list_all well_formed cs"
  then show "\<exists>e. fst (chat_deepseek w a) = Inl e"
    by (rule chat_deepseek_stream_text_fails [OF h _ st assms(1)])
next
  assume "load_config (toml_load w) ''./config.toml'' ''deepseek'' = Inr cfg"
    "completions_create w (create_deepseek_client (cfg_api_key cfg) (cfg_base_url cfg))
       (deepseek_api_params cfg a) = Some (Completion r)"
    "\<not> stream a"
  then show "fst (chat_deepseek w a) =
              (case choices r of
                 [] \<Rightarrow> Inl IndexError
               | c # _ \<Rightarrow> Inr (Text (msg_content (choice_message c))))"
    using assms by (simp add: chat_deepseek_def Let_def first_message_def split: list.splits)
qed

theorem deepseek_mode_fallthrough_witness:
  "fst (chat_deepseek
          (mock_env example_doc (Stream [reasoning_chunk ''hm'', text_chunk ''he'', text_chunk ''llo'']))
          (deepseek_call ''xml'' True PNone PNone Map.empty)) = Inr (Text (Some ''hello'')) \<and>
   fst (chat_deepseek (mock_env example_doc (mock_completion ''hello'' NoAttr))
          (deepseek_call ''xml'' False PNone PNone Map.empty)) = Inr (Text (Some ''hello''))"
  using
    deepseek_mode_fallthrough [of "deepseek_call ''xml'' True PNone PNone Map.empty"
      "mock_env example_doc (Stream [reasoning_chunk ''hm'', text_chunk ''he'', text_chunk ''llo''])"
      deepseek_cfg "[reasoning_chunk ''hm'', text_chunk ''he'', text_chunk ''llo'']"]
    deepseek_mode_fallthrough [of "deepseek_call ''xml'' False PNone PNone Map.empty"
      "mock_env example_doc (mock_completion ''hello'' NoAttr)"
      deepseek_cfg _
      "\<lparr>choices = [\<lparr>choice_message = \<lparr>msg_content = Some ''hello'', msg_reasoning = NoAttr\<rparr>\<rparr>]\<rparr>"]
  by (simp add: example_load_deepseek example_create deepseek_call_def mock_completion_def
      fragment_defs)

end
